theory Spec2Isabelle
  imports Complex_Main "HOL-Library.Word" "HOL-Library.Signed_Division"
begin

section \<open>Pointers, char arrays and the file system\<close>

text \<open>
  \<open>shader.hpp\<close> stores raw \<open>const char*\<close> and \<open>char*\<close> values. A pointer is an abstract
  address; \<open>0\<close> is \<open>nullptr\<close>. The store of char arrays is a list: address \<open>a > 0\<close> names
  the array \<open>h ! (a - 1)\<close>, and \<open>new char[n]\<close> appends a cell, so a fresh array never
  aliases an older one. A cell holds the chars written into the array so far (the
  initialised prefix, the terminating NUL included when one was written).
\<close>

type_synonym addr = nat

definition nullptr :: addr where
  "nullptr = 0"

definition NUL :: char where
  "NUL = CHR 0x00"

type_synonym char_heap = "char list list"

definition deref :: "char_heap \<Rightarrow> addr \<Rightarrow> char list option" where
  "deref h a = (if a = nullptr \<or> length h < a then None else Some (h ! (a - 1)))"

text \<open>
  Reading a pointer as a C string: the chars before the first NUL. A null or dangling
  pointer, or an array without terminator, has no defined reading (\<open>None\<close>).
\<close>

definition c_str :: "char_heap \<Rightarrow> addr \<Rightarrow> string option" where
  "c_str h a =
     (case deref h a of
        None \<Rightarrow> None
      | Some buf \<Rightarrow> if NUL \<in> set buf then Some (takeWhile (\<lambda>c. c \<noteq> NUL) buf) else None)"

text \<open>
  A file has its bytes and a flag saying whether \<open>std::fstream\<close> (mode \<open>in | out\<close>) can
  open it. The file system is an association list from path names to files.
\<close>

record file_entry =
  bytes :: "char list"
  openable :: bool

section \<open>The driver boundary\<close>

text \<open>
  The OpenGL driver is not part of the repository. The calls that \<open>shader.hpp\<close> makes are
  logged in order; what the driver answers (object names, compile status, info log) is a
  parameter of the model and may depend on the calls made so far.
\<close>

type_synonym GLuint = "32 word"
type_synonym GLint = int

datatype shader_type = GL_VERTEX_SHADER | GL_FRAGMENT_SHADER

datatype shader_pname = GL_COMPILE_STATUS | GL_INFO_LOG_LENGTH

definition GL_FALSE :: GLint where
  "GL_FALSE = 0"

definition GL_TRUE :: GLint where
  "GL_TRUE = 1"

datatype gl_call =
    GlCreateShader shader_type GLuint
  | GlShaderSource GLuint "string option"
  | GlCompileShader GLuint
  | GlCreateProgram GLuint
  | GlAttachShader GLuint GLuint
  | GlLinkProgram GLuint
  | GlDeleteShader GLuint
  | GlDeleteProgram GLuint

text \<open>
  \<open>GlCreateShader\<close> and \<open>GlCreateProgram\<close> carry the name the driver returned;
  \<open>GlShaderSource\<close> carries the text the driver reads through the pointer it was given.
\<close>

record driver =
  glCreateShader :: "gl_call list \<Rightarrow> shader_type \<Rightarrow> GLuint"
  glCreateProgram :: "gl_call list \<Rightarrow> GLuint"
  glGetShaderiv :: "gl_call list \<Rightarrow> GLuint \<Rightarrow> shader_pname \<Rightarrow> GLint"
  glGetShaderInfoLog :: "gl_call list \<Rightarrow> GLuint \<Rightarrow> string"

record world =
  heap :: char_heap
  files :: "(string \<times> file_entry) list"
  gl :: "gl_call list"
  detached :: "(addr \<times> addr) list"

text \<open>
  \<open>detached\<close> lists the loader threads started by \<open>load_file<true>\<close>, each with the two
  path pointers it was given. The model is sequential: it records that a thread was
  started and detached, and does not run it. Starting a thread is taken to succeed.
\<close>

section \<open>Outcomes\<close>

text \<open>
  A call returns, throws a C++ exception (the state reached at the throw is kept, since
  the writes made before it stay), or has undefined behaviour.
\<close>

datatype exn = filesystem_error string | bad_array_new_length

datatype 'a outcome = Returns 'a | Throws exn 'a | Undefined

section \<open>The C++ library calls of the loader\<close>

text \<open>
  \<open>std::fstream f(path)\<close>: \<open>Some bs\<close> is a stream over the file's bytes, \<open>None\<close> a stream
  whose open failed (no exception is thrown; every later read on it fails).
\<close>

definition fstream_open :: "world \<Rightarrow> string \<Rightarrow> char list option" where
  "fstream_open w name =
     (case map_of (files w) name of
        None \<Rightarrow> None
      | Some f \<Rightarrow> if openable f then Some (bytes f) else None)"

text \<open>\<open>std::filesystem::file_size(path)\<close> throws \<open>filesystem_error\<close> for a missing file.\<close>

definition file_size :: "world \<Rightarrow> string \<Rightarrow> exn + nat" where
  "file_size w name =
     (case map_of (files w) name of
        None \<Rightarrow> Inl (filesystem_error name)
      | Some f \<Rightarrow> Inr (length (bytes f)))"

text \<open>
  \<open>new char[n]\<close>: a fresh array, nothing written yet. Memory is taken to suffice
  (no \<open>std::bad_alloc\<close>).
\<close>

definition new_char_array :: "world \<Rightarrow> nat \<Rightarrow> world \<times> addr" where
  "new_char_array w n = (w\<lparr>heap := heap w @ [[]]\<rparr>, Suc (length (heap w)))"

text \<open>
  \<open>stream.get(s, count, delim)\<close> of \<open>std::basic_istream\<close>: stores at most \<open>count - 1\<close>
  chars, stops before \<open>delim\<close> and at end of file, then stores a NUL when \<open>count > 0\<close>
  (also when the stream had failed); with \<open>count < 1\<close> it stores nothing.
\<close>

definition istream_get :: "char list option \<Rightarrow> nat \<Rightarrow> char \<Rightarrow> char list" where
  "istream_get stream count delim =
     (if count < 1 then []
      else (case stream of
              None \<Rightarrow> []
            | Some bs \<Rightarrow> takeWhile (\<lambda>c. c \<noteq> delim) (take (count - 1) bs)) @ [NUL])"

definition store_chars :: "world \<Rightarrow> addr \<Rightarrow> char list \<Rightarrow> world" where
  "store_chars w a cs = w\<lparr>heap := (heap w)[a - 1 := cs]\<rparr>"

section \<open>shader.hpp: the data\<close>

record shader_paths =
  vertex_shader :: addr
  fragment_shader :: addr

record shader_contents =
  vertex_shader_content :: addr
  fragment_shader_content :: addr

definition null_shader_path :: shader_paths where
  "null_shader_path = \<lparr>vertex_shader = nullptr, fragment_shader = nullptr\<rparr>"

definition NULL_SHADER_PATH :: shader_paths where
  "NULL_SHADER_PATH = null_shader_path"

text \<open>\<open>operator==\<close> on \<open>shader_paths\<close> (lines 34 to 37): it compares the two pointers.\<close>

definition shader_paths_eq :: "shader_paths \<Rightarrow> shader_paths \<Rightarrow> bool" where
  "shader_paths_eq left right =
     (vertex_shader left = vertex_shader right \<and> fragment_shader left = fragment_shader right)"

datatype shader_state = EMPTY | FOUND_PATH | CONTENT | COMPILED | LINKED | DESTROYED

text \<open>
  The class \<open>shader_program\<close>. The private cell \<open>_shader_state\<close> is a \<open>uint8_t\<close> that only
  ever receives \<open>static_cast<uint8_t>\<close> of an enumerator and is read back through
  \<open>shader_state(_shader_state)\<close>, so it is kept as the enumerator here
  (\<open>m_shader_state\<close>).
\<close>

record shader_program =
  paths :: shader_paths
  contents :: shader_contents
  m_shader_state :: shader_state
  vertex_shader_id :: GLuint
  fragment_shader_id :: GLuint
  shader_id :: GLuint

text \<open>
  The implicit constructor: null paths, null contents, state \<open>EMPTY\<close>, \<open>shader_id = 0\<close>.
  \<open>vertex_shader_id\<close> and \<open>fragment_shader_id\<close> have no initialiser; whatever they hold
  is given as \<open>vid\<close> and \<open>fid\<close>.
\<close>

definition shader_program_new :: "GLuint \<Rightarrow> GLuint \<Rightarrow> shader_program" where
  "shader_program_new vid fid =
     \<lparr>paths = \<lparr>vertex_shader = nullptr, fragment_shader = nullptr\<rparr>,
      contents = \<lparr>vertex_shader_content = nullptr, fragment_shader_content = nullptr\<rparr>,
      m_shader_state = EMPTY,
      vertex_shader_id = vid,
      fragment_shader_id = fid,
      shader_id = 0\<rparr>"

definition get_shader_state :: "shader_program \<Rightarrow> shader_state" where
  "get_shader_state s = m_shader_state s"

definition get_shader_paths :: "shader_program \<Rightarrow> shader_paths" where
  "get_shader_paths s = paths s"

definition get_shader_contents :: "shader_program \<Rightarrow> shader_contents" where
  "get_shader_contents s = contents s"

definition get_id :: "shader_program \<Rightarrow> GLuint" where
  "get_id s = shader_id s"

definition get_vertex_shader_id :: "shader_program \<Rightarrow> GLuint" where
  "get_vertex_shader_id s = vertex_shader_id s"

definition get_fragment_shader_id :: "shader_program \<Rightarrow> GLuint" where
  "get_fragment_shader_id s = fragment_shader_id s"

section \<open>shader.hpp: the operations of \<open>shader_program\<close>\<close>

text \<open>
  \<open>__loader_func\<close> (lines 51 to 62), statement by statement. The two content pointers
  are passed by reference, so the assignment to \<open>vsc\<close> is already made when
  \<open>file_size(fpth)\<close> throws.
\<close>

definition loader_func ::
  "world \<Rightarrow> shader_contents \<Rightarrow> addr \<Rightarrow> addr \<Rightarrow> (world \<times> shader_contents) outcome" where
  "loader_func w c vpth fpth =
     (case c_str (heap w) vpth of
        None \<Rightarrow> Undefined
      | Some vname \<Rightarrow>
          let vertfile = fstream_open w vname in
          (case file_size w vname of
             Inl e \<Rightarrow> Throws e (w, c)
           | Inr vertsz \<Rightarrow>
               let (w1, vsc) = new_char_array w vertsz;
                   c1 = c\<lparr>vertex_shader_content := vsc\<rparr>;
                   w2 = store_chars w1 vsc (istream_get vertfile vertsz NUL)
               in (case c_str (heap w2) fpth of
                     None \<Rightarrow> Undefined
                   | Some fname \<Rightarrow>
                       let fragfile = fstream_open w2 fname in
                       (case file_size w2 fname of
                          Inl e \<Rightarrow> Throws e (w2, c1)
                        | Inr fragsz \<Rightarrow>
                            let (w3, fsc) = new_char_array w2 fragsz;
                                c2 = c1\<lparr>fragment_shader_content := fsc\<rparr>;
                                w4 = store_chars w3 fsc (istream_get fragfile fragsz NUL)
                            in Returns (w4, c2)))))"

text \<open>\<open>set_path\<close> (lines 69 to 73).\<close>

definition set_path :: "shader_paths \<Rightarrow> shader_program \<Rightarrow> shader_program" where
  "set_path p s = s\<lparr>paths := p, m_shader_state := FOUND_PATH\<rparr>"

text \<open>
  \<open>load_file<async>\<close> (lines 75 to 100). With \<open>async\<close> the loader thread is started on
  the two path pointers and detached, and the call returns. Without it the loader runs
  on the object's own \<open>contents\<close>. Neither branch assigns \<open>_shader_state\<close>.
\<close>

definition load_file ::
  "bool \<Rightarrow> world \<times> shader_program \<Rightarrow> (world \<times> shader_program) outcome" where
  "load_file async ws =
     (let (w, s) = ws in
      if async then
        Returns (w\<lparr>detached := detached w @ [(vertex_shader (paths s), fragment_shader (paths s))]\<rparr>, s)
      else
        (case loader_func w (contents s) (vertex_shader (paths s)) (fragment_shader (paths s)) of
           Returns (w', c') \<Rightarrow> Returns (w', s\<lparr>contents := c'\<rparr>)
         | Throws e (w', c') \<Rightarrow> Throws e (w', s\<lparr>contents := c'\<rparr>)
         | Undefined \<Rightarrow> Undefined))"

text \<open>\<open>set_content\<close> (lines 105 to 111).\<close>

definition set_content :: "addr \<Rightarrow> addr \<Rightarrow> shader_program \<Rightarrow> shader_program" where
  "set_content vertex_content fragment_content s =
     s\<lparr>contents := \<lparr>vertex_shader_content = vertex_content,
                    fragment_shader_content = fragment_content\<rparr>,
       m_shader_state := CONTENT\<rparr>"

text \<open>\<open>compile_shader\<close> (lines 125 to 136): two create, source, compile triples.\<close>

definition compile_shader ::
  "driver \<Rightarrow> world \<times> shader_program \<Rightarrow> world \<times> shader_program" where
  "compile_shader drv ws =
     (let (w, s) = ws;
          vid = glCreateShader drv (gl w) GL_VERTEX_SHADER;
          g1 = gl w @ [GlCreateShader GL_VERTEX_SHADER vid];
          g2 = g1 @ [GlShaderSource vid (c_str (heap w) (vertex_shader_content (contents s)))];
          g3 = g2 @ [GlCompileShader vid];
          fid = glCreateShader drv g3 GL_FRAGMENT_SHADER;
          g4 = g3 @ [GlCreateShader GL_FRAGMENT_SHADER fid];
          g5 = g4 @ [GlShaderSource fid (c_str (heap w) (fragment_shader_content (contents s)))];
          g6 = g5 @ [GlCompileShader fid]
      in (w\<lparr>gl := g6\<rparr>,
          s\<lparr>vertex_shader_id := vid, fragment_shader_id := fid, m_shader_state := COMPILED\<rparr>))"

text \<open>\<open>link_shader\<close> (lines 144 to 157).\<close>

definition link_shader ::
  "driver \<Rightarrow> world \<times> shader_program \<Rightarrow> world \<times> shader_program" where
  "link_shader drv ws =
     (let (w, s) = ws;
          pid = glCreateProgram drv (gl w);
          g = gl w @ [GlCreateProgram pid,
                      GlAttachShader pid (vertex_shader_id s),
                      GlAttachShader pid (fragment_shader_id s),
                      GlLinkProgram pid,
                      GlDeleteShader (vertex_shader_id s),
                      GlDeleteShader (fragment_shader_id s)]
      in (w\<lparr>gl := g\<rparr>, s\<lparr>shader_id := pid, m_shader_state := LINKED\<rparr>))"

text \<open>The destructor \<open>~shader_program\<close> (lines 167 to 171).\<close>

definition destroy_shader_program ::
  "world \<times> shader_program \<Rightarrow> world \<times> shader_program" where
  "destroy_shader_program ws =
     (let (w, s) = ws
      in (w\<lparr>gl := gl w @ [GlDeleteProgram (shader_id s)]\<rparr>, s\<lparr>m_shader_state := DESTROYED\<rparr>))"

section \<open>shader.hpp: the namespaces \<open>loader\<close> and \<open>compiler\<close>\<close>

text \<open>\<open>loader::get_shader\<close> (lines 213 to 219).\<close>

definition get_shader :: "GLuint \<Rightarrow> GLuint \<Rightarrow> shader_paths \<Rightarrow> shader_program" where
  "get_shader vid fid p = set_path p (shader_program_new vid fid)"

text \<open>
  \<open>loader::full_load_shader\<close> (lines 267 to 275). An exception of \<open>load_file\<close> leaves the
  function before \<open>compile_shader\<close>.
\<close>

definition full_load_shader ::
  "driver \<Rightarrow> bool \<Rightarrow> world \<times> shader_program \<Rightarrow> (world \<times> shader_program) outcome" where
  "full_load_shader drv async_load ws =
     (if \<not> shader_paths_eq (get_shader_paths (snd ws)) NULL_SHADER_PATH then
        (case load_file async_load ws of
           Returns ws1 \<Rightarrow> Returns (link_shader drv (compile_shader drv ws1))
         | Throws e ws1 \<Rightarrow> Throws e ws1
         | Undefined \<Rightarrow> Undefined)
      else Returns (link_shader drv (compile_shader drv ws)))"

text \<open>\<open>compiler::compile_shader\<close> (line 283).\<close>

definition compiler_compile_shader ::
  "driver \<Rightarrow> world \<times> shader_program \<Rightarrow> world \<times> shader_program" where
  "compiler_compile_shader drv ws = link_shader drv ws"

text \<open>
  \<open>compiler::log_compilation_status(shader)\<close> (lines 297 to 331) runs the same block for
  the vertex stage (lines 302 to 314) and for the fragment stage (lines 318 to 330);
  \<open>log_stage\<close> is that block, \<open>out\<close> the text printed so far. A failed stage asks for
  the log length \<open>n\<close>, allocates \<open>new char[n]\<close>, lets the driver write at most \<open>n - 1\<close>
  chars and a NUL, and prints the array with \<open>%s\<close>: a negative \<open>n\<close> makes \<open>new\<close> throw,
  and with \<open>n = 0\<close> the array printed has no element.
\<close>

definition log_stage ::
  "driver \<Rightarrow> gl_call list \<Rightarrow> string \<Rightarrow> GLuint \<Rightarrow> string \<Rightarrow> string outcome" where
  "log_stage drv g stage ident out =
     (if glGetShaderiv drv g ident GL_COMPILE_STATUS = GL_FALSE then
        let out1 = out @ ''SHADER_COMPILATION_ERROR for '' @ stage @ '' shader\<newline>'';
            n = glGetShaderiv drv g ident GL_INFO_LOG_LENGTH
        in if n < 0 then Throws bad_array_new_length out1
           else if n = 0 then Undefined
           else Returns (out1 @ ''INFO_LOG:\<newline>''
                         @ take (nat n - 1) (glGetShaderInfoLog drv g ident) @ ''\<newline>'')
      else Returns (out @ ''SHADER_STATUS for '' @ stage @ '' shader: GOOD\<newline>''))"

definition log_compilation_status ::
  "driver \<Rightarrow> world \<times> shader_program \<Rightarrow> string outcome" where
  "log_compilation_status drv ws =
     (let (w, s) = ws in
      case log_stage drv (gl w) ''vertex'' (get_vertex_shader_id s) [] of
        Returns out \<Rightarrow> log_stage drv (gl w) ''fragment'' (get_fragment_shader_id s) out
      | Throws e out \<Rightarrow> Throws e out
      | Undefined \<Rightarrow> Undefined)"

section \<open>time.hpp and \<open>gl_window::render\<close>\<close>

text \<open>
  \<open>time::now\<close> (lines 27 to 30). \<open>count()\<close> is the clock's signed 64-bit tick count and
  \<open>std::chrono::nanoseconds::period::den\<close> is the \<open>intmax_t\<close> constant \<open>1000000000\<close>, so
  \<open>/\<close> is the truncating division of two signed integers; its quotient is then
  converted to \<open>long double\<close>. The quotient lies between \<open>- 2 ^ 34\<close> and \<open>2 ^ 34\<close>
  (\<open>now_quotient_bound\<close> below), and the difference of two of them between \<open>- 2 ^ 35\<close>
  and \<open>2 ^ 35\<close>: the formats in use for \<open>long double\<close> (IEEE double, x87 extended,
  IEEE quadruple) hold these integers exactly, so conversion and subtraction do not
  round, and \<open>real\<close> stands for \<open>long double\<close> here. The clock reading is an argument.
\<close>

definition period_den :: int where
  "period_den = 1000000000"

definition now :: "64 word \<Rightarrow> real" where
  "now count = real_of_int (sint count sdiv period_den)"

text \<open>
  \<open>gl_window::render\<close> (glwindow.hpp, lines 136 to 141). \<open>renderer\<close> is the function
  pointer \<open>_renderer\<close> (\<open>None\<close> for \<open>nullptr\<close>); it may change any global, the global
  \<open>deltaTime\<close> included, which is the second component of the state. \<open>c0\<close> and \<open>c1\<close>
  are the clock readings of the two calls of \<open>now\<close>.
\<close>

definition render ::
  "('g \<times> real \<Rightarrow> 'g \<times> real) option \<Rightarrow> 64 word \<Rightarrow> 64 word \<Rightarrow> 'g \<times> real \<Rightarrow> 'g \<times> real" where
  "render renderer c0 c1 st =
     (let start_of_renderer = now c0;
          st1 = (case renderer of None \<Rightarrow> st | Some f \<Rightarrow> f st)
      in (fst st1, now c1 - start_of_renderer))"

definition deltaTime :: "'g \<times> real \<Rightarrow> real" where
  "deltaTime st = snd st"

section \<open>The state machine as the specification words it\<close>

text \<open>
  The edges of the specification's state machine: \<open>EMPTY\<close> to \<open>FOUND_PATH\<close>, \<open>EMPTY\<close> or
  \<open>FOUND_PATH\<close> to \<open>CONTENT\<close>, \<open>CONTENT\<close> to \<open>COMPILED\<close>, \<open>COMPILED\<close> to \<open>LINKED\<close>, and
  every state but \<open>DESTROYED\<close> to \<open>DESTROYED\<close>.
\<close>

definition spec_edge :: "shader_state \<Rightarrow> shader_state \<Rightarrow> bool" where
  "spec_edge a b =
     ((a = EMPTY \<and> b = FOUND_PATH)
      \<or> (a = EMPTY \<and> b = CONTENT)
      \<or> (a = FOUND_PATH \<and> b = CONTENT)
      \<or> (a = CONTENT \<and> b = COMPILED)
      \<or> (a = COMPILED \<and> b = LINKED)
      \<or> (a \<noteq> DESTROYED \<and> b = DESTROYED))"

section \<open>Sequences of operations on one shader\<close>

text \<open>
  The states that calls of the public operations produce from a newly constructed
  \<open>shader_program\<close>. A call that throws leaves the object as it was at the throw.
  Between two calls the rest of the program may change memory, the file system and the
  driver's log in any way (\<open>reach_environment\<close>); the writes of a detached loader
  thread into the object are not among the steps.
\<close>

inductive reachable :: "driver \<Rightarrow> world \<times> shader_program \<Rightarrow> bool" for drv :: driver where
  reach_new: "reachable drv (w, shader_program_new vid fid)"
| reach_set_path: "reachable drv (w, s) \<Longrightarrow> reachable drv (w, set_path p s)"
| reach_set_content: "reachable drv (w, s) \<Longrightarrow> reachable drv (w, set_content v f s)"
| reach_load_returns:
    "reachable drv ws \<Longrightarrow> load_file async ws = Returns ws' \<Longrightarrow> reachable drv ws'"
| reach_load_throws:
    "reachable drv ws \<Longrightarrow> load_file async ws = Throws e ws' \<Longrightarrow> reachable drv ws'"
| reach_compile: "reachable drv ws \<Longrightarrow> reachable drv (compile_shader drv ws)"
| reach_link: "reachable drv ws \<Longrightarrow> reachable drv (link_shader drv ws)"
| reach_compiler_compile: "reachable drv ws \<Longrightarrow> reachable drv (compiler_compile_shader drv ws)"
| reach_full_load_returns:
    "reachable drv ws \<Longrightarrow> full_load_shader drv async ws = Returns ws' \<Longrightarrow> reachable drv ws'"
| reach_full_load_throws:
    "reachable drv ws \<Longrightarrow> full_load_shader drv async ws = Throws e ws' \<Longrightarrow> reachable drv ws'"
| reach_destroy: "reachable drv ws \<Longrightarrow> reachable drv (destroy_shader_program ws)"
| reach_environment: "reachable drv (w, s) \<Longrightarrow> reachable drv (w', s)"

text \<open>Content is present when one of the two content pointers is not null.\<close>

definition has_content :: "shader_program \<Rightarrow> bool" where
  "has_content s =
     (vertex_shader_content (contents s) \<noteq> nullptr
      \<or> fragment_shader_content (contents s) \<noteq> nullptr)"

text \<open>
  The invariant behind the reachable states: an object still in state \<open>EMPTY\<close> has a
  null vertex path and no content.
\<close>

definition empty_is_blank :: "shader_program \<Rightarrow> bool" where
  "empty_is_blank s =
     (m_shader_state s = EMPTY \<longrightarrow> vertex_shader (paths s) = nullptr \<and> \<not> has_content s)"

text \<open>
  Both path pointers name a string in memory, and each names a file that exists and
  that \<open>std::fstream\<close> can open.
\<close>

definition readable :: "world \<Rightarrow> addr \<Rightarrow> bool" where
  "readable w pth =
     (case c_str (heap w) pth of
        None \<Rightarrow> False
      | Some name \<Rightarrow> (case fstream_open w name of None \<Rightarrow> False | Some bs \<Rightarrow> True))"

definition sources_readable :: "world \<Rightarrow> shader_program \<Rightarrow> bool" where
  "sources_readable w s =
     (readable w (vertex_shader (paths s)) \<and> readable w (fragment_shader (paths s)))"

text \<open>
  What a synchronous load leaves for a file that can be opened, written out on the
  file's bytes \<open>bs\<close>. \<open>loaded_array\<close> is the array: nothing for an empty file, else the
  bytes before the last one, up to the first NUL, and a NUL. \<open>loaded_text\<close> is what a
  reader of that array as a C string gets: for an empty file the array has no
  terminator and the reading is not defined.
\<close>

definition loaded_array :: "char list \<Rightarrow> char list" where
  "loaded_array bs = (if bs = [] then [] else takeWhile (\<lambda>c. c \<noteq> NUL) (butlast bs) @ [NUL])"

definition loaded_text :: "char list \<Rightarrow> string option" where
  "loaded_text bs = (if bs = [] then None else Some (takeWhile (\<lambda>c. c \<noteq> NUL) (butlast bs)))"

text \<open>The text that \<open>log_compilation_status\<close> prints when both stages compiled.\<close>

definition all_good_log :: string where
  "all_good_log =
     ''SHADER_STATUS for vertex shader: GOOD\<newline>''
     @ ''SHADER_STATUS for fragment shader: GOOD\<newline>''"

section \<open>Concrete inputs\<close>

text \<open>
  A driver that answers the odd names 1, 3, 5, ... (twice the number of calls logged so
  far, plus one), reports every compilation as failed and has a fixed info log of five
  chars.
\<close>

definition failing_driver :: driver where
  "failing_driver =
     \<lparr>glCreateShader = (\<lambda>g t. 2 * of_nat (length g) + 1),
      glCreateProgram = (\<lambda>g. 2 * of_nat (length g) + 1),
      glGetShaderiv = (\<lambda>g i p. case p of GL_COMPILE_STATUS \<Rightarrow> GL_FALSE | GL_INFO_LOG_LENGTH \<Rightarrow> 6),
      glGetShaderInfoLog = (\<lambda>g i. ''error'')\<rparr>"

text \<open>The same driver, but answering the null name to every \<open>glCreateProgram\<close>.\<close>

definition null_program_driver :: driver where
  "null_program_driver = failing_driver\<lparr>glCreateProgram := (\<lambda>g. 0)\<rparr>"

text \<open>
  Two path strings and two shader texts in memory, and a file system with the two
  shader files; \<open>missing.glsl\<close> is not among the files.
\<close>

definition scenario_world :: world where
  "scenario_world =
     \<lparr>heap = [''v.glsl'' @ [NUL], ''f.glsl'' @ [NUL], ''missing.glsl'' @ [NUL],
              ''v.glsl'' @ [NUL]],
      files = [(''v.glsl'', \<lparr>bytes = ''void main(){}'', openable = True\<rparr>),
               (''f.glsl'', \<lparr>bytes = ''void main(){ }'', openable = True\<rparr>)],
      gl = [],
      detached = []\<rparr>"

definition scenario_paths :: shader_paths where
  "scenario_paths = \<lparr>vertex_shader = 1, fragment_shader = 2\<rparr>"

definition scenario_paths_missing :: shader_paths where
  "scenario_paths_missing = \<lparr>vertex_shader = 1, fragment_shader = 3\<rparr>"

section \<open>Facts about the memory model and the loader\<close>

lemma c_str_nullptr: "c_str h nullptr = None"
  by (simp add: c_str_def deref_def)

lemma deref_append: "deref h a = Some x \<Longrightarrow> deref (h @ ys) a = Some x"
  by (auto simp: deref_def nullptr_def nth_append split: if_splits)

lemma c_str_append: "c_str h a = Some x \<Longrightarrow> c_str (h @ ys) a = Some x"
  by (auto simp: c_str_def deref_append split: option.splits if_splits)

lemma fstream_open_heap: "fstream_open (w\<lparr>heap := h\<rparr>) n = fstream_open w n"
  by (simp add: fstream_open_def)

lemmas loader_unfold =
  loader_func_def file_size_def Let_def split_beta new_char_array_def store_chars_def
  list_update_append fstream_open_heap

lemma loader_func_vertex_missing:
  assumes "c_str (heap w) vp = Some vn" and "map_of (files w) vn = None"
  shows "loader_func w c vp fp = Throws (filesystem_error vn) (w, c)"
  using assms by (simp add: loader_func_def file_size_def Let_def)

lemma loader_func_fragment_missing:
  assumes "c_str (heap w) vp = Some vn" and "map_of (files w) vn = Some vf"
    and "c_str (heap w) fp = Some fn" and "map_of (files w) fn = None"
  shows "loader_func w c vp fp =
     Throws (filesystem_error fn)
       (w\<lparr>heap := heap w @ [istream_get (fstream_open w vn) (length (bytes vf)) NUL]\<rparr>,
        c\<lparr>vertex_shader_content := Suc (length (heap w))\<rparr>)"
  using assms c_str_append [OF assms(3)] by (simp add: loader_unfold)

lemma loader_func_returns:
  assumes "c_str (heap w) vp = Some vn" and "map_of (files w) vn = Some vf"
    and "c_str (heap w) fp = Some fn" and "map_of (files w) fn = Some ff"
  shows "loader_func w c vp fp =
     Returns
       (w\<lparr>heap := heap w @ [istream_get (fstream_open w vn) (length (bytes vf)) NUL,
                            istream_get (fstream_open w fn) (length (bytes ff)) NUL]\<rparr>,
        c\<lparr>vertex_shader_content := Suc (length (heap w)),
          fragment_shader_content := Suc (Suc (length (heap w)))\<rparr>)"
  using assms c_str_append [OF assms(3)] by (simp add: loader_unfold)

text \<open>
  A synchronous load of two existing files returns: each file's chars but the last,
  cut at the first NUL, lie in two fresh arrays, and the state cell is as it was.
\<close>

lemma load_file_returns:
  assumes "c_str (heap w) (vertex_shader (paths s)) = Some vn"
    and "map_of (files w) vn = Some vf"
    and "c_str (heap w) (fragment_shader (paths s)) = Some fn"
    and "map_of (files w) fn = Some ff"
  shows "load_file False (w, s) =
     Returns
       (w\<lparr>heap := heap w @ [istream_get (fstream_open w vn) (length (bytes vf)) NUL,
                            istream_get (fstream_open w fn) (length (bytes ff)) NUL]\<rparr>,
        s\<lparr>contents := (contents s)\<lparr>vertex_shader_content := Suc (length (heap w)),
                                    fragment_shader_content := Suc (Suc (length (heap w)))\<rparr>\<rparr>)"
  by (simp add: load_file_def loader_func_returns [OF assms])

lemma load_file_state:
  assumes "load_file async (w, s) = Returns (w', s') \<or> load_file async (w, s) = Throws e (w', s')"
  shows "m_shader_state s' = m_shader_state s"
  using assms by (auto simp: load_file_def split: if_splits outcome.splits)

lemma load_file_sync_null:
  "vertex_shader (paths s) = nullptr \<Longrightarrow> load_file False (w, s) = Undefined"
  by (simp add: load_file_def loader_func_def c_str_nullptr)

lemma state_compile: "m_shader_state (snd (compile_shader drv ws)) = COMPILED"
  by (simp add: compile_shader_def Let_def split_beta)

lemma state_link: "m_shader_state (snd (link_shader drv ws)) = LINKED"
  by (simp add: link_shader_def Let_def split_beta)

lemma state_destroy: "m_shader_state (snd (destroy_shader_program ws)) = DESTROYED"
  by (simp add: destroy_shader_program_def Let_def split_beta)

lemma link_shader_id: "shader_id (snd (link_shader drv ws)) = glCreateProgram drv (gl (fst ws))"
  by (simp add: link_shader_def Let_def split_beta)

section \<open>The invariant of the reachable states\<close>

lemma blank_load:
  assumes "empty_is_blank s"
    and "load_file async (w, s) = Returns (w', s') \<or> load_file async (w, s) = Throws e (w', s')"
  shows "empty_is_blank s'"
proof (cases async)
  case True
  with assms show ?thesis by (auto simp: load_file_def)
next
  case sync: False
  show ?thesis
  proof (cases "m_shader_state s = EMPTY")
    case True
    with assms(1) have "vertex_shader (paths s) = nullptr"
      by (simp add: empty_is_blank_def)
    with assms(2) sync show ?thesis by (simp add: load_file_sync_null)
  next
    case False
    with load_file_state [OF assms(2)] show ?thesis by (simp add: empty_is_blank_def)
  qed
qed

lemma blank_full_load:
  assumes "empty_is_blank (snd ws)"
    and "full_load_shader drv async ws = Returns ws' \<or> full_load_shader drv async ws = Throws e ws'"
  shows "empty_is_blank (snd ws')"
proof (cases "shader_paths_eq (get_shader_paths (snd ws)) NULL_SHADER_PATH")
  case True
  with assms(2) have "ws' = link_shader drv (compile_shader drv ws)"
    by (auto simp: full_load_shader_def)
  then show ?thesis by (simp add: empty_is_blank_def state_link)
next
  case False
  with assms(2) consider
      (linked) ws1 where "ws' = link_shader drv (compile_shader drv ws1)"
    | (thrown) "load_file async ws = Throws e ws'"
    by (auto simp: full_load_shader_def split: outcome.splits)
  then show ?thesis
  proof cases
    case linked
    then show ?thesis by (simp add: empty_is_blank_def state_link)
  next
    case thrown
    with assms(1) blank_load [of "snd ws" async "fst ws" "fst ws'" "snd ws'" e]
    show ?thesis by simp
  qed
qed

lemma reachable_blank: "reachable drv ws \<Longrightarrow> empty_is_blank (snd ws)"
proof (induction rule: reachable.induct)
  case (reach_new w vid fid)
  show ?case by (simp add: empty_is_blank_def shader_program_new_def has_content_def)
next
  case (reach_set_path w s p)
  show ?case by (simp add: empty_is_blank_def set_path_def)
next
  case (reach_set_content w s v f)
  show ?case by (simp add: empty_is_blank_def set_content_def)
next
  case (reach_load_returns ws async ws')
  then show ?case
    using blank_load [of "snd ws" async "fst ws" "fst ws'" "snd ws'"] by simp
next
  case (reach_load_throws ws async e ws')
  then show ?case
    using blank_load [of "snd ws" async "fst ws" "fst ws'" "snd ws'" e] by simp
next
  case (reach_compile ws)
  show ?case by (simp add: empty_is_blank_def state_compile)
next
  case (reach_link ws)
  show ?case by (simp add: empty_is_blank_def state_link)
next
  case (reach_compiler_compile ws)
  show ?case by (simp add: empty_is_blank_def compiler_compile_shader_def state_link)
next
  case (reach_full_load_returns ws async ws')
  then show ?case using blank_full_load [of ws drv async ws'] by simp
next
  case (reach_full_load_throws ws async e ws')
  then show ?case using blank_full_load [of ws drv async ws' e] by simp
next
  case (reach_destroy ws)
  show ?case by (simp add: empty_is_blank_def state_destroy)
next
  case (reach_environment w s w')
  then show ?case by simp
qed

section \<open>Evaluating the concrete inputs\<close>

lemmas scenario_unfold =
  scenario_world_def scenario_paths_def scenario_paths_missing_def get_shader_def
  set_path_def set_content_def shader_program_new_def

lemmas eval_unfold =
  load_file_def loader_func_def c_str_def deref_def nullptr_def NUL_def file_size_def
  fstream_open_def new_char_array_def store_chars_def istream_get_def Let_def
  get_shader_state_def

lemma odd_name: "(2 * x + 1 :: 32 word) \<noteq> 0"
proof
  assume "2 * x + 1 = (0 :: 32 word)"
  then have "even (2 * x + 1 :: 32 word)" by simp
  then show False by simp
qed

lemma failing_driver_names: "glCreateProgram failing_driver g \<noteq> 0"
  by (simp add: failing_driver_def odd_name)

text \<open>
  The quotient that \<open>now\<close> converts is small enough for every floating-point format
  to hold it exactly.
\<close>

lemma now_quotient_bound: "\<bar>sint (c :: 64 word) sdiv period_den\<bar> < 2 ^ 34"
proof -
  have b: "\<bar>sint c\<bar> \<le> 2 ^ 63"
    using sint_ge [of c] sint_lt [of c] by simp
  have "\<bar>sint c sdiv period_den\<bar> = \<bar>sint c\<bar> div 1000000000"
    by (simp add: signed_divide_int_def period_den_def abs_mult sgn_if)
  also have "\<dots> \<le> 2 ^ 63 div 1000000000"
    using b by (rule zdiv_mono1) simp
  also have "\<dots> < 2 ^ 34" by simp
  finally show ?thesis .
qed

section \<open>The state cell\<close>

text \<open>
  Claim C1, as amended. No operation looks at the state it is called in, and none can
  fail because of it: from every state \<open>set_path\<close> sets \<open>FOUND_PATH\<close>, \<open>set_content\<close>
  sets \<open>CONTENT\<close>, \<open>compile_shader\<close> sets \<open>COMPILED\<close>, \<open>link_shader\<close> sets \<open>LINKED\<close> and
  the destructor sets \<open>DESTROYED\<close>. The code has no \<open>InvalidStateError\<close>.
\<close>

theorem operations_set_state_unguarded:
  "get_shader_state (set_path p s) = FOUND_PATH
   \<and> get_shader_state (set_content v f s) = CONTENT
   \<and> get_shader_state (snd (compile_shader drv (w, s))) = COMPILED
   \<and> get_shader_state (snd (link_shader drv (w, s))) = LINKED
   \<and> get_shader_state (snd (destroy_shader_program (w, s))) = DESTROYED"
  by (simp add: get_shader_state_def set_path_def set_content_def state_compile state_link
      state_destroy)

text \<open>
  The claim as it was stated fails: \<open>set_path\<close> on an object in state \<open>CONTENT\<close> returns
  with the object in state \<open>FOUND_PATH\<close>, which is no edge of the state machine.
\<close>

theorem set_path_from_content_counterexample:
  "get_shader_state (set_content 1 2 (shader_program_new 0 0)) = CONTENT
   \<and> get_shader_state (set_path scenario_paths (set_content 1 2 (shader_program_new 0 0)))
       = FOUND_PATH
   \<and> \<not> spec_edge CONTENT FOUND_PATH"
  by (simp add: get_shader_state_def set_path_def set_content_def spec_edge_def)

section \<open>Synchronous loading\<close>

text \<open>
  Claim C2 at a concrete input: both files exist and can be opened, the object is in
  state \<open>FOUND_PATH\<close>. \<open>load_file<false>\<close> returns with the state still \<open>FOUND_PATH\<close>, and
  the content of each stage is its file without the last char (\<open>get\<close> is given the file
  size as \<open>count\<close> and stores \<open>count - 1\<close> chars).
\<close>

theorem load_file_sync_scenario:
  "map_of (files scenario_world) ''v.glsl'' = Some \<lparr>bytes = ''void main(){}'', openable = True\<rparr>
   \<and> map_of (files scenario_world) ''f.glsl'' = Some \<lparr>bytes = ''void main(){ }'', openable = True\<rparr>
   \<and> get_shader_state (get_shader 0 0 scenario_paths) = FOUND_PATH
   \<and> map_outcome
        (\<lambda>(w', s'). (get_shader_state s',
                     c_str (heap w') (vertex_shader_content (contents s')),
                     c_str (heap w') (fragment_shader_content (contents s'))))
        (load_file False (scenario_world, get_shader 0 0 scenario_paths))
       = Returns (FOUND_PATH, Some ''void main(){'', Some ''void main(){ '')"
  by (simp add: scenario_unfold eval_unfold)

text \<open>
  Claim C3, as amended. When the vertex path names no file, the synchronous load throws
  \<open>filesystem_error\<close> for that path and changes nothing. When the vertex file exists and
  the fragment path names no file, it throws \<open>filesystem_error\<close> for the fragment path,
  the state is as before, and the partial content stays: the vertex content pointer
  already points to the new array read from the vertex file.
\<close>

theorem load_file_missing_file:
  assumes "c_str (heap w) (vertex_shader (paths s)) = Some vn"
  shows "(map_of (files w) vn = None \<longrightarrow>
            load_file False (w, s) = Throws (filesystem_error vn) (w, s))
         \<and> (\<forall>vf fn. map_of (files w) vn = Some vf
                     \<and> c_str (heap w) (fragment_shader (paths s)) = Some fn
                     \<and> map_of (files w) fn = None \<longrightarrow>
              load_file False (w, s) =
                Throws (filesystem_error fn)
                  (w\<lparr>heap := heap w @ [istream_get (fstream_open w vn) (length (bytes vf)) NUL]\<rparr>,
                   s\<lparr>contents := (contents s)\<lparr>vertex_shader_content := Suc (length (heap w))\<rparr>\<rparr>))"
proof (intro conjI allI impI)
  assume "map_of (files w) vn = None"
  with assms show "load_file False (w, s) = Throws (filesystem_error vn) (w, s)"
    by (simp add: load_file_def loader_func_vertex_missing)
next
  fix vf fn
  assume a: "map_of (files w) vn = Some vf
             \<and> c_str (heap w) (fragment_shader (paths s)) = Some fn
             \<and> map_of (files w) fn = None"
  then have "loader_func w (contents s) (vertex_shader (paths s)) (fragment_shader (paths s)) =
     Throws (filesystem_error fn)
       (w\<lparr>heap := heap w @ [istream_get (fstream_open w vn) (length (bytes vf)) NUL]\<rparr>,
        (contents s)\<lparr>vertex_shader_content := Suc (length (heap w))\<rparr>)"
    using assms by (intro loader_func_fragment_missing) simp_all
  then show "load_file False (w, s) =
                Throws (filesystem_error fn)
                  (w\<lparr>heap := heap w @ [istream_get (fstream_open w vn) (length (bytes vf)) NUL]\<rparr>,
                   s\<lparr>contents := (contents s)\<lparr>vertex_shader_content := Suc (length (heap w))\<rparr>\<rparr>)"
    by (simp add: load_file_def)
qed

theorem load_file_missing_file_witness:
  "load_file False
     (scenario_world, get_shader 0 0 \<lparr>vertex_shader = 3, fragment_shader = 2\<rparr>)
     = Throws (filesystem_error ''missing.glsl'')
         (scenario_world, get_shader 0 0 \<lparr>vertex_shader = 3, fragment_shader = 2\<rparr>)
   \<and> load_file False (scenario_world, get_shader 0 0 scenario_paths_missing)
     = Throws (filesystem_error ''missing.glsl'')
         (scenario_world\<lparr>heap := heap scenario_world @ [''void main(){'' @ [NUL]]\<rparr>,
          (get_shader 0 0 scenario_paths_missing)
            \<lparr>contents := \<lparr>vertex_shader_content = 5, fragment_shader_content = nullptr\<rparr>\<rparr>)"
proof -
  have v: "c_str (heap scenario_world) 3 = Some ''missing.glsl''"
    and f: "c_str (heap scenario_world) 1 = Some ''v.glsl''"
    by (simp_all add: scenario_world_def c_str_def deref_def nullptr_def NUL_def)
  have m: "map_of (files scenario_world) ''missing.glsl'' = None"
    and e: "map_of (files scenario_world) ''v.glsl''
              = Some \<lparr>bytes = ''void main(){}'', openable = True\<rparr>"
    by (simp_all add: scenario_world_def)
  have "load_file False
     (scenario_world, get_shader 0 0 \<lparr>vertex_shader = 3, fragment_shader = 2\<rparr>)
     = Throws (filesystem_error ''missing.glsl'')
         (scenario_world, get_shader 0 0 \<lparr>vertex_shader = 3, fragment_shader = 2\<rparr>)"
    using load_file_missing_file
      [of scenario_world "get_shader 0 0 \<lparr>vertex_shader = 3, fragment_shader = 2\<rparr>"
          "''missing.glsl''"] v m
    by (simp add: get_shader_def set_path_def shader_program_new_def)
  moreover have "load_file False (scenario_world, get_shader 0 0 scenario_paths_missing)
     = Throws (filesystem_error ''missing.glsl'')
         (scenario_world\<lparr>heap := heap scenario_world @ [''void main(){'' @ [NUL]]\<rparr>,
          (get_shader 0 0 scenario_paths_missing)
            \<lparr>contents := \<lparr>vertex_shader_content = 5, fragment_shader_content = nullptr\<rparr>\<rparr>)"
    using load_file_missing_file
      [of scenario_world "get_shader 0 0 scenario_paths_missing" "''v.glsl''"] v f m e
    by (simp add: get_shader_def set_path_def shader_program_new_def scenario_paths_missing_def
        fstream_open_def istream_get_def NUL_def)
       (simp add: scenario_world_def)
  ultimately show ?thesis by simp
qed

text \<open>
  The claim as it was stated fails: with the vertex file present and the fragment file
  missing, the load throws with the state still \<open>FOUND_PATH\<close>, but the content is not
  what it was before the call: the vertex content pointer was null and now points to
  the text read from the vertex file.
\<close>

theorem load_file_partial_content_counterexample:
  "contents (get_shader 0 0 scenario_paths_missing)
     = \<lparr>vertex_shader_content = nullptr, fragment_shader_content = nullptr\<rparr>
   \<and> map_outcome
        (\<lambda>(w', s'). (get_shader_state s', contents s',
                     c_str (heap w') (vertex_shader_content (contents s'))))
        (load_file False (scenario_world, get_shader 0 0 scenario_paths_missing))
       = Throws (filesystem_error ''missing.glsl'')
           (FOUND_PATH,
            \<lparr>vertex_shader_content = 5, fragment_shader_content = nullptr\<rparr>,
            Some ''void main(){'')"
  by (simp add: scenario_unfold eval_unfold)

section \<open>Content and state\<close>

text \<open>
  Claim C4, as amended. A reachable object has content only when its state is one of
  \<open>FOUND_PATH\<close>, \<open>CONTENT\<close>, \<open>COMPILED\<close>, \<open>LINKED\<close> and \<open>DESTROYED\<close>; that is, an object in
  state \<open>EMPTY\<close> has none. \<open>set_path\<close> and the destructor leave the content pointers as
  they are.
\<close>

theorem content_only_outside_empty:
  assumes "reachable drv (w, s)" and "has_content s"
  shows "get_shader_state s \<in> {FOUND_PATH, CONTENT, COMPILED, LINKED, DESTROYED}"
  using reachable_blank [OF assms(1)] assms(2)
  by (cases "m_shader_state s") (auto simp: empty_is_blank_def get_shader_state_def)

theorem content_only_outside_empty_witness:
  "reachable failing_driver (scenario_world, set_content 1 2 (shader_program_new 0 0))
   \<and> has_content (set_content 1 2 (shader_program_new 0 0))
   \<and> get_shader_state (set_content 1 2 (shader_program_new 0 0))
       \<in> {FOUND_PATH, CONTENT, COMPILED, LINKED, DESTROYED}"
proof -
  have r: "reachable failing_driver (scenario_world, set_content 1 2 (shader_program_new 0 0))"
    by (intro reach_set_content reach_new)
  have h: "has_content (set_content 1 2 (shader_program_new 0 0))"
    by (simp add: has_content_def set_content_def nullptr_def)
  from r h content_only_outside_empty [OF r h] show ?thesis by simp
qed

text \<open>
  The claim as it was stated fails: \<open>set_content\<close> followed by \<open>set_path\<close> gives an object
  with content in state \<open>FOUND_PATH\<close>, and destroying an object with content gives one
  with content in state \<open>DESTROYED\<close>.
\<close>

theorem content_outside_loaded_states_counterexample:
  "reachable failing_driver
     (scenario_world, set_path scenario_paths (set_content 1 2 (shader_program_new 0 0)))
   \<and> has_content (set_path scenario_paths (set_content 1 2 (shader_program_new 0 0)))
   \<and> get_shader_state (set_path scenario_paths (set_content 1 2 (shader_program_new 0 0)))
       = FOUND_PATH
   \<and> reachable failing_driver
       (destroy_shader_program (scenario_world, set_content 1 2 (shader_program_new 0 0)))
   \<and> has_content
       (snd (destroy_shader_program (scenario_world, set_content 1 2 (shader_program_new 0 0))))
   \<and> get_shader_state
       (snd (destroy_shader_program (scenario_world, set_content 1 2 (shader_program_new 0 0))))
       = DESTROYED"
proof -
  have "reachable failing_driver
     (scenario_world, set_path scenario_paths (set_content 1 2 (shader_program_new 0 0)))"
    by (intro reach_set_path reach_set_content reach_new)
  moreover have "reachable failing_driver
       (destroy_shader_program (scenario_world, set_content 1 2 (shader_program_new 0 0)))"
    by (intro reach_destroy reach_set_content reach_new)
  ultimately show ?thesis
    by (simp add: has_content_def get_shader_state_def set_path_def set_content_def
        destroy_shader_program_def nullptr_def)
qed

section \<open>The one-shot pipeline\<close>

lemma istream_get_loaded_array: "istream_get (Some bs) (length bs) NUL = loaded_array bs"
  by (simp add: istream_get_def loaded_array_def butlast_conv_take)

lemma takeWhile_before_stop:
  "\<not> P y \<Longrightarrow> takeWhile P (takeWhile P xs @ [y]) = takeWhile P xs"
  by (induction xs) simp_all

lemma c_str_loaded_array:
  assumes "deref h a = Some (loaded_array bs)"
  shows "c_str h a = loaded_text bs"
  using assms
  by (simp add: c_str_def loaded_array_def loaded_text_def takeWhile_before_stop)

lemma load_file_openable:
  assumes "c_str (heap w) (vertex_shader (paths s)) = Some vn"
    and "map_of (files w) vn = Some vf" and "openable vf"
    and "c_str (heap w) (fragment_shader (paths s)) = Some fn"
    and "map_of (files w) fn = Some ff" and "openable ff"
  shows "load_file False (w, s) =
     Returns
       (w\<lparr>heap := heap w @ [loaded_array (bytes vf), loaded_array (bytes ff)]\<rparr>,
        s\<lparr>contents := \<lparr>vertex_shader_content = Suc (length (heap w)),
                       fragment_shader_content = Suc (Suc (length (heap w)))\<rparr>\<rparr>)"
  using assms load_file_returns [OF assms(1,2,4,5)]
  by (simp add: fstream_open_def istream_get_loaded_array)

text \<open>
  Claim C5, as amended. When both paths name files that exist and can be opened,
  \<open>full_load_shader\<close> with synchronous loading performs the load, then \<open>compile_shader\<close>,
  then \<open>link_shader\<close>: the load stores two fresh arrays, the driver is handed the text
  of the vertex array and of the fragment array in its two \<open>glShaderSource\<close> calls, and
  the twelve driver calls come in the order of compiling and linking. It ends in state
  \<open>LINKED\<close>, and \<open>shader_id\<close> is the name the driver answered to \<open>glCreateProgram\<close>,
  stored unchecked: it is non-zero exactly when that answer is. When the paths equal
  the null path no load is made (memory and the list of loader threads are as before):
  the object is compiled and linked as it is, and ends in the same way.
\<close>

theorem full_load_shader_pipeline:
  "(\<forall>vn vf fn ff.
      c_str (heap w) (vertex_shader (paths s)) = Some vn \<and> map_of (files w) vn = Some vf
      \<and> openable vf
      \<and> c_str (heap w) (fragment_shader (paths s)) = Some fn \<and> map_of (files w) fn = Some ff
      \<and> openable ff \<longrightarrow>
      (let w1 = w\<lparr>heap := heap w @ [loaded_array (bytes vf), loaded_array (bytes ff)]\<rparr>;
           s1 = s\<lparr>contents := \<lparr>vertex_shader_content = Suc (length (heap w)),
                                fragment_shader_content = Suc (Suc (length (heap w)))\<rparr>\<rparr>;
           ws2 = link_shader drv (compile_shader drv (w1, s1));
           vid = get_vertex_shader_id (snd ws2);
           fid = get_fragment_shader_id (snd ws2);
           g6 = gl w @ [GlCreateShader GL_VERTEX_SHADER vid,
                        GlShaderSource vid (loaded_text (bytes vf)),
                        GlCompileShader vid,
                        GlCreateShader GL_FRAGMENT_SHADER fid,
                        GlShaderSource fid (loaded_text (bytes ff)),
                        GlCompileShader fid]
       in load_file False (w, s) = Returns (w1, s1)
          \<and> full_load_shader drv False (w, s) = Returns ws2
          \<and> gl (fst ws2) = g6 @ [GlCreateProgram (get_id (snd ws2)),
                                 GlAttachShader (get_id (snd ws2)) vid,
                                 GlAttachShader (get_id (snd ws2)) fid,
                                 GlLinkProgram (get_id (snd ws2)),
                                 GlDeleteShader vid,
                                 GlDeleteShader fid]
          \<and> heap (fst ws2) = heap w1
          \<and> contents (snd ws2) = contents s1
          \<and> get_shader_state (snd ws2) = LINKED
          \<and> get_id (snd ws2) = glCreateProgram drv g6))
   \<and> (shader_paths_eq (get_shader_paths s) NULL_SHADER_PATH \<longrightarrow>
        (let ws2 = link_shader drv (compile_shader drv (w, s))
         in full_load_shader drv async (w, s) = Returns ws2
            \<and> heap (fst ws2) = heap w
            \<and> detached (fst ws2) = detached w
            \<and> contents (snd ws2) = contents s
            \<and> get_shader_state (snd ws2) = LINKED
            \<and> get_id (snd ws2) = glCreateProgram drv (gl (fst (compile_shader drv (w, s))))))"
proof (intro conjI allI impI)
  fix vn vf fn ff
  assume a: "c_str (heap w) (vertex_shader (paths s)) = Some vn \<and> map_of (files w) vn = Some vf
      \<and> openable vf
      \<and> c_str (heap w) (fragment_shader (paths s)) = Some fn \<and> map_of (files w) fn = Some ff
      \<and> openable ff"
  define w1 where "w1 = w\<lparr>heap := heap w @ [loaded_array (bytes vf), loaded_array (bytes ff)]\<rparr>"
  define s1 where "s1 = s\<lparr>contents := \<lparr>vertex_shader_content = Suc (length (heap w)),
                                fragment_shader_content = Suc (Suc (length (heap w)))\<rparr>\<rparr>"
  have l: "load_file False (w, s) = Returns (w1, s1)"
    unfolding w1_def s1_def using load_file_openable [of w s vn vf fn ff] a by simp
  from a have nz: "vertex_shader (paths s) \<noteq> nullptr"
    by (auto simp: c_str_nullptr)
  have f: "full_load_shader drv False (w, s) = Returns (link_shader drv (compile_shader drv (w1, s1)))"
    using nz l
    by (simp add: full_load_shader_def shader_paths_eq_def NULL_SHADER_PATH_def
        null_shader_path_def get_shader_paths_def)
  have tv: "c_str (heap w1) (vertex_shader_content (contents s1)) = loaded_text (bytes vf)"
    by (rule c_str_loaded_array) (simp add: w1_def s1_def deref_def nullptr_def nth_append)
  have tf: "c_str (heap w1) (fragment_shader_content (contents s1)) = loaded_text (bytes ff)"
    by (rule c_str_loaded_array) (simp add: w1_def s1_def deref_def nullptr_def nth_append)
  have g: "gl w1 = gl w"
    by (simp add: w1_def)
  show "let w1 = w\<lparr>heap := heap w @ [loaded_array (bytes vf), loaded_array (bytes ff)]\<rparr>;
           s1 = s\<lparr>contents := \<lparr>vertex_shader_content = Suc (length (heap w)),
                                fragment_shader_content = Suc (Suc (length (heap w)))\<rparr>\<rparr>;
           ws2 = link_shader drv (compile_shader drv (w1, s1));
           vid = get_vertex_shader_id (snd ws2);
           fid = get_fragment_shader_id (snd ws2);
           g6 = gl w @ [GlCreateShader GL_VERTEX_SHADER vid,
                        GlShaderSource vid (loaded_text (bytes vf)),
                        GlCompileShader vid,
                        GlCreateShader GL_FRAGMENT_SHADER fid,
                        GlShaderSource fid (loaded_text (bytes ff)),
                        GlCompileShader fid]
       in load_file False (w, s) = Returns (w1, s1)
          \<and> full_load_shader drv False (w, s) = Returns ws2
          \<and> gl (fst ws2) = g6 @ [GlCreateProgram (get_id (snd ws2)),
                                 GlAttachShader (get_id (snd ws2)) vid,
                                 GlAttachShader (get_id (snd ws2)) fid,
                                 GlLinkProgram (get_id (snd ws2)),
                                 GlDeleteShader vid,
                                 GlDeleteShader fid]
          \<and> heap (fst ws2) = heap w1
          \<and> contents (snd ws2) = contents s1
          \<and> get_shader_state (snd ws2) = LINKED
          \<and> get_id (snd ws2) = glCreateProgram drv g6"
    unfolding w1_def [symmetric] s1_def [symmetric]
    using l f tv tf g
    by (simp add: Let_def link_shader_def compile_shader_def get_vertex_shader_id_def
        get_fragment_shader_id_def get_id_def get_shader_state_def)
next
  assume "shader_paths_eq (get_shader_paths s) NULL_SHADER_PATH"
  then have "full_load_shader drv async (w, s)
                = Returns (link_shader drv (compile_shader drv (w, s)))"
    by (simp add: full_load_shader_def)
  then show "let ws2 = link_shader drv (compile_shader drv (w, s))
         in full_load_shader drv async (w, s) = Returns ws2
            \<and> heap (fst ws2) = heap w
            \<and> detached (fst ws2) = detached w
            \<and> contents (snd ws2) = contents s
            \<and> get_shader_state (snd ws2) = LINKED
            \<and> get_id (snd ws2) = glCreateProgram drv (gl (fst (compile_shader drv (w, s))))"
    by (simp add: Let_def link_shader_def compile_shader_def get_id_def get_shader_state_def)
qed

text \<open>
  The scenario with the driver that answers odd names: the two loaded texts reach the
  driver, and the handle is 13, the driver's answer after the six calls of compiling.
  From a new object, whose paths are null, nothing is loaded.
\<close>

theorem full_load_shader_pipeline_witness:
  "map_outcome (\<lambda>(w', s'). (get_shader_state s', get_id s', drop 4 (heap w'), gl w'))
        (full_load_shader failing_driver False (scenario_world, get_shader 0 0 scenario_paths))
       = Returns (LINKED, 13,
                  [''void main(){'' @ [NUL], ''void main(){ '' @ [NUL]],
                  [GlCreateShader GL_VERTEX_SHADER 1,
                   GlShaderSource 1 (Some ''void main(){''),
                   GlCompileShader 1,
                   GlCreateShader GL_FRAGMENT_SHADER 7,
                   GlShaderSource 7 (Some ''void main(){ ''),
                   GlCompileShader 7,
                   GlCreateProgram 13,
                   GlAttachShader 13 1,
                   GlAttachShader 13 7,
                   GlLinkProgram 13,
                   GlDeleteShader 1,
                   GlDeleteShader 7])
   \<and> shader_paths_eq (get_shader_paths (shader_program_new 0 0)) NULL_SHADER_PATH
   \<and> map_outcome (\<lambda>(w', s'). (get_shader_state s', get_id s', heap w'))
        (full_load_shader failing_driver True (scenario_world, shader_program_new 0 0))
       = Returns (LINKED, 13, heap scenario_world)"
proof -
  have v: "c_str (heap scenario_world) (vertex_shader (paths (get_shader 0 0 scenario_paths)))
             = Some ''v.glsl''"
    and f: "c_str (heap scenario_world) (fragment_shader (paths (get_shader 0 0 scenario_paths)))
             = Some ''f.glsl''"
    by (simp_all add: scenario_unfold c_str_def deref_def nullptr_def NUL_def)
  have fv: "map_of (files scenario_world) ''v.glsl''
              = Some \<lparr>bytes = ''void main(){}'', openable = True\<rparr>"
    and ff: "map_of (files scenario_world) ''f.glsl''
              = Some \<lparr>bytes = ''void main(){ }'', openable = True\<rparr>"
    by (simp_all add: scenario_world_def)
  have n: "shader_paths_eq (get_shader_paths (shader_program_new 0 0)) NULL_SHADER_PATH"
    by (simp add: shader_paths_eq_def get_shader_paths_def shader_program_new_def
        NULL_SHADER_PATH_def null_shader_path_def)
  note t = full_load_shader_pipeline
      [where w = scenario_world and s = "get_shader 0 0 scenario_paths"
         and drv = failing_driver, THEN conjunct1, rule_format, of "''v.glsl''" _ "''f.glsl''",
       OF conjI [OF v conjI [OF fv conjI [OF _ conjI [OF f conjI [OF ff]]]]]]
  have a: "map_outcome (\<lambda>(w', s'). (get_shader_state s', get_id s', drop 4 (heap w'), gl w'))
        (full_load_shader failing_driver False (scenario_world, get_shader 0 0 scenario_paths))
       = Returns (LINKED, 13,
                  [''void main(){'' @ [NUL], ''void main(){ '' @ [NUL]],
                  [GlCreateShader GL_VERTEX_SHADER 1,
                   GlShaderSource 1 (Some ''void main(){''),
                   GlCompileShader 1,
                   GlCreateShader GL_FRAGMENT_SHADER 7,
                   GlShaderSource 7 (Some ''void main(){ ''),
                   GlCompileShader 7,
                   GlCreateProgram 13,
                   GlAttachShader 13 1,
                   GlAttachShader 13 7,
                   GlLinkProgram 13,
                   GlDeleteShader 1,
                   GlDeleteShader 7])"
    using t
    by (simp add: Let_def split_beta loaded_array_def loaded_text_def NUL_def
        link_shader_def compile_shader_def get_vertex_shader_id_def get_fragment_shader_id_def
        get_id_def get_shader_state_def failing_driver_def scenario_world_def)
  have b: "map_outcome (\<lambda>(w', s'). (get_shader_state s', get_id s', heap w'))
        (full_load_shader failing_driver True (scenario_world, shader_program_new 0 0))
       = Returns (LINKED, 13, heap scenario_world)"
    using full_load_shader_pipeline
      [where w = scenario_world and s = "shader_program_new 0 0" and drv = failing_driver
         and async = True, THEN conjunct2] n
    by (simp add: Let_def link_shader_def compile_shader_def get_id_def get_shader_state_def
        failing_driver_def scenario_world_def)
  from n a b show ?thesis by simp
qed

text \<open>
  The claim as it was stated fails: both scenario files can be read, the driver answers
  the null name to \<open>glCreateProgram\<close>, and the one-shot load ends in state \<open>LINKED\<close> with
  \<open>shader_id = 0\<close>.
\<close>

theorem full_load_null_handle_counterexample:
  "sources_readable scenario_world (get_shader 0 0 scenario_paths)
   \<and> map_outcome (\<lambda>(w', s'). (get_shader_state s', get_id s'))
        (full_load_shader null_program_driver False
           (scenario_world, get_shader 0 0 scenario_paths))
       = Returns (LINKED, 0)"
  by (simp add: sources_readable_def readable_def scenario_unfold eval_unfold
      full_load_shader_def shader_paths_eq_def NULL_SHADER_PATH_def null_shader_path_def
      get_shader_paths_def get_id_def link_shader_def compile_shader_def
      null_program_driver_def failing_driver_def)

section \<open>Compiling and the compile log\<close>

text \<open>
  Claim C6. Whatever the driver answers, \<open>compile_shader\<close> makes the create, source and
  compile calls of the vertex stage and then of the fragment stage, and leaves the state
  \<open>COMPILED\<close>. It does not ask for the compile status: changing what the driver reports
  through \<open>glGetShaderiv\<close> and \<open>glGetShaderInfoLog\<close> changes nothing in its result, and
  \<open>link_shader\<close> goes on to \<open>LINKED\<close> from there. The status shows in
  \<open>log_compilation_status\<close> alone, which prints the all-good text exactly when the
  driver reports neither stage as failed.
\<close>

theorem compile_shader_unconditional:
  "get_shader_state (snd (compile_shader drv (w, s))) = COMPILED
   \<and> gl (fst (compile_shader drv (w, s))) =
       gl w @ [GlCreateShader GL_VERTEX_SHADER
                 (get_vertex_shader_id (snd (compile_shader drv (w, s)))),
               GlShaderSource (get_vertex_shader_id (snd (compile_shader drv (w, s))))
                 (c_str (heap w) (vertex_shader_content (contents s))),
               GlCompileShader (get_vertex_shader_id (snd (compile_shader drv (w, s)))),
               GlCreateShader GL_FRAGMENT_SHADER
                 (get_fragment_shader_id (snd (compile_shader drv (w, s)))),
               GlShaderSource (get_fragment_shader_id (snd (compile_shader drv (w, s))))
                 (c_str (heap w) (fragment_shader_content (contents s))),
               GlCompileShader (get_fragment_shader_id (snd (compile_shader drv (w, s))))]
   \<and> compile_shader (drv\<lparr>glGetShaderiv := st, glGetShaderInfoLog := lg\<rparr>) (w, s)
       = compile_shader drv (w, s)
   \<and> get_shader_state (snd (link_shader drv (compile_shader drv (w, s)))) = LINKED
   \<and> (log_compilation_status drv (w', s') = Returns all_good_log
        \<longleftrightarrow> glGetShaderiv drv (gl w') (get_vertex_shader_id s') GL_COMPILE_STATUS \<noteq> GL_FALSE
            \<and> glGetShaderiv drv (gl w') (get_fragment_shader_id s') GL_COMPILE_STATUS \<noteq> GL_FALSE)"
proof (intro conjI)
  show "get_shader_state (snd (compile_shader drv (w, s))) = COMPILED"
    by (simp add: get_shader_state_def state_compile)
  show "compile_shader (drv\<lparr>glGetShaderiv := st, glGetShaderInfoLog := lg\<rparr>) (w, s)
       = compile_shader drv (w, s)"
    by (simp add: compile_shader_def Let_def)
  show "get_shader_state (snd (link_shader drv (compile_shader drv (w, s)))) = LINKED"
    by (simp add: get_shader_state_def state_link)
  show "log_compilation_status drv (w', s') = Returns all_good_log
        \<longleftrightarrow> glGetShaderiv drv (gl w') (get_vertex_shader_id s') GL_COMPILE_STATUS \<noteq> GL_FALSE
            \<and> glGetShaderiv drv (gl w') (get_fragment_shader_id s') GL_COMPILE_STATUS \<noteq> GL_FALSE"
    by (simp add: log_compilation_status_def log_stage_def Let_def all_good_log_def)
qed (simp add: compile_shader_def Let_def get_vertex_shader_id_def get_fragment_shader_id_def)

text \<open>
  With the driver that reports every compilation as failed: the state is \<open>COMPILED\<close>
  all the same, and the log names the failed vertex stage.
\<close>

theorem compile_shader_unconditional_witness:
  "get_shader_state
     (snd (compile_shader failing_driver (scenario_world, set_content 1 2 (shader_program_new 0 0))))
     = COMPILED
   \<and> get_shader_state
       (snd (link_shader failing_driver
              (compile_shader failing_driver
                 (scenario_world, set_content 1 2 (shader_program_new 0 0)))))
       = LINKED
   \<and> log_compilation_status failing_driver
       (compile_shader failing_driver (scenario_world, set_content 1 2 (shader_program_new 0 0)))
       \<noteq> Returns all_good_log
   \<and> log_compilation_status failing_driver
       (compile_shader failing_driver (scenario_world, set_content 1 2 (shader_program_new 0 0)))
       = Returns (''SHADER_COMPILATION_ERROR for vertex shader\<newline>''
                  @ ''INFO_LOG:\<newline>'' @ ''error'' @ ''\<newline>''
                  @ ''SHADER_COMPILATION_ERROR for fragment shader\<newline>''
                  @ ''INFO_LOG:\<newline>'' @ ''error'' @ ''\<newline>'')"
proof -
  have l: "log_compilation_status failing_driver
       (compile_shader failing_driver (scenario_world, set_content 1 2 (shader_program_new 0 0)))
       = Returns (''SHADER_COMPILATION_ERROR for vertex shader\<newline>''
                  @ ''INFO_LOG:\<newline>'' @ ''error'' @ ''\<newline>''
                  @ ''SHADER_COMPILATION_ERROR for fragment shader\<newline>''
                  @ ''INFO_LOG:\<newline>'' @ ''error'' @ ''\<newline>'')"
    by (simp add: log_compilation_status_def log_stage_def compile_shader_def Let_def
        failing_driver_def GL_FALSE_def)
  have g: "glGetShaderiv failing_driver g i GL_COMPILE_STATUS = GL_FALSE" for g i
    by (simp add: failing_driver_def)
  from l g compile_shader_unconditional
      [where drv = failing_driver and w = scenario_world
         and s = "set_content 1 2 (shader_program_new 0 0)"
         and w' = "fst (compile_shader failing_driver
                  (scenario_world, set_content 1 2 (shader_program_new 0 0)))"
         and s' = "snd (compile_shader failing_driver
                  (scenario_world, set_content 1 2 (shader_program_new 0 0)))"]
  show ?thesis by simp
qed

text \<open>
  Claim C8. \<open>compiler::compile_shader\<close> is \<open>link_shader\<close>: the calls it adds to the
  driver's log are the six calls of linking, no \<open>glCompileShader\<close> among them, and it
  leaves the state \<open>LINKED\<close>, not \<open>COMPILED\<close>.
\<close>

theorem compiler_compile_shader_links:
  "compiler_compile_shader drv (w, s) = link_shader drv (w, s)
   \<and> gl (fst (compiler_compile_shader drv (w, s))) =
       gl w @ [GlCreateProgram (glCreateProgram drv (gl w)),
               GlAttachShader (glCreateProgram drv (gl w)) (get_vertex_shader_id s),
               GlAttachShader (glCreateProgram drv (gl w)) (get_fragment_shader_id s),
               GlLinkProgram (glCreateProgram drv (gl w)),
               GlDeleteShader (get_vertex_shader_id s),
               GlDeleteShader (get_fragment_shader_id s)]
   \<and> GlCompileShader i
       \<notin> set (drop (length (gl w)) (gl (fst (compiler_compile_shader drv (w, s)))))
   \<and> get_shader_state (snd (compiler_compile_shader drv (w, s))) = LINKED
   \<and> get_shader_state (snd (compiler_compile_shader drv (w, s))) \<noteq> COMPILED"
  by (simp add: compiler_compile_shader_def link_shader_def Let_def get_shader_state_def
      get_vertex_shader_id_def get_fragment_shader_id_def)

section \<open>Destruction after an asynchronous load\<close>

text \<open>
  Claim C7, as amended. \<open>load_file<true>\<close> starts its loader thread, detaches it and
  returns at once with the object unchanged; the destructor called right after it
  succeeds: it deletes the program, sets the state \<open>DESTROYED\<close> and leaves the list of
  detached loader threads as it is. The code has no \<open>ResourceBusyError\<close>, no join and
  no cancel, and the destructor makes no check.
\<close>

theorem destroy_after_async_load:
  "map_outcome
     (\<lambda>ws1. (snd ws1,
             detached (fst ws1),
             get_shader_state (snd (destroy_shader_program ws1)),
             gl (fst (destroy_shader_program ws1)),
             detached (fst (destroy_shader_program ws1))))
     (load_file True (w, s))
     = Returns (s,
                detached w @ [(vertex_shader (paths s), fragment_shader (paths s))],
                DESTROYED,
                gl w @ [GlDeleteProgram (get_id s)],
                detached w @ [(vertex_shader (paths s), fragment_shader (paths s))])
   \<and> get_shader_state (snd (destroy_shader_program (w', s'))) = DESTROYED
   \<and> detached (fst (destroy_shader_program (w', s'))) = detached w'"
  by (simp add: load_file_def destroy_shader_program_def get_shader_state_def get_id_def)

text \<open>
  The claim as it was stated fails: an asynchronous load is started on the two scenario
  paths and the destructor is called while its thread is still listed; the destructor
  returns with the state \<open>DESTROYED\<close>.
\<close>

theorem destroy_while_loading_counterexample:
  "map_outcome
     (\<lambda>ws1. (detached (fst ws1),
             get_shader_state (snd (destroy_shader_program ws1)),
             detached (fst (destroy_shader_program ws1))))
     (load_file True (scenario_world, get_shader 0 0 scenario_paths))
     = Returns ([(1, 2)], DESTROYED, [(1, 2)])"
  by (simp add: scenario_unfold load_file_def destroy_shader_program_def get_shader_state_def)

section \<open>Comparing paths\<close>

text \<open>
  Claim C9. Two \<open>shader_paths\<close> compare equal exactly when they hold the same two
  pointers. Paths whose strings read the same but that differ in a pointer compare
  unequal. So \<open>full_load_shader\<close> leaves out the load exactly when both stored pointers
  are null, and calls \<open>load_file\<close> in every other case.
\<close>

theorem shader_paths_eq_pointers:
  "(shader_paths_eq left right \<longleftrightarrow> left = right)
   \<and> (c_str h (vertex_shader left) = c_str h (vertex_shader right)
        \<and> c_str h (fragment_shader left) = c_str h (fragment_shader right)
        \<and> (vertex_shader left \<noteq> vertex_shader right
             \<or> fragment_shader left \<noteq> fragment_shader right)
      \<longrightarrow> \<not> shader_paths_eq left right)
   \<and> full_load_shader drv async (w, s) =
       (if vertex_shader (get_shader_paths s) = nullptr
           \<and> fragment_shader (get_shader_paths s) = nullptr
        then Returns (link_shader drv (compile_shader drv (w, s)))
        else (case load_file async (w, s) of
                Returns ws1 \<Rightarrow> Returns (link_shader drv (compile_shader drv ws1))
              | Throws e ws1 \<Rightarrow> Throws e ws1
              | Undefined \<Rightarrow> Undefined))"
proof (intro conjI)
  show "shader_paths_eq left right \<longleftrightarrow> left = right"
    by (cases left, cases right) (simp add: shader_paths_eq_def)
qed (simp_all add: shader_paths_eq_def full_load_shader_def NULL_SHADER_PATH_def
      null_shader_path_def)

text \<open>
  Addresses 1 and 4 of the scenario both hold the string \<open>v.glsl\<close>: the paths compare
  unequal. A path with a null vertex pointer and a set fragment pointer is not the null
  path: \<open>full_load_shader\<close> calls \<open>load_file\<close>, which opens a stream on a null pointer.
\<close>

theorem shader_paths_eq_pointers_witness:
  "c_str (heap scenario_world) 1 = c_str (heap scenario_world) 4
   \<and> \<not> shader_paths_eq \<lparr>vertex_shader = 1, fragment_shader = 2\<rparr>
                        \<lparr>vertex_shader = 4, fragment_shader = 2\<rparr>
   \<and> full_load_shader failing_driver False
       (scenario_world, get_shader 0 0 \<lparr>vertex_shader = nullptr, fragment_shader = 2\<rparr>)
       = Undefined"
proof -
  have c: "c_str (heap scenario_world) 1 = c_str (heap scenario_world) 4"
    by (simp add: scenario_world_def c_str_def deref_def nullptr_def NUL_def)
  have u: "load_file False
       (scenario_world, get_shader 0 0 \<lparr>vertex_shader = nullptr, fragment_shader = 2\<rparr>)
       = Undefined"
    by (simp add: load_file_sync_null get_shader_def set_path_def)
  from c u shader_paths_eq_pointers
      [of "\<lparr>vertex_shader = 1, fragment_shader = 2\<rparr>"
          "\<lparr>vertex_shader = 4, fragment_shader = 2\<rparr>"
          "heap scenario_world" failing_driver False scenario_world
          "get_shader 0 0 \<lparr>vertex_shader = nullptr, fragment_shader = 2\<rparr>"]
  show ?thesis
    by (simp add: get_shader_paths_def get_shader_def set_path_def nullptr_def)
qed

section \<open>Frame timing\<close>

text \<open>
  Claim C10. \<open>now\<close> is the truncated integer quotient of the tick count by
  \<open>1000000000\<close>, converted afterwards: a whole number of seconds. The \<open>deltaTime\<close> that
  \<open>render\<close> stores is the difference of two such quotients, a whole number of seconds
  whatever the renderer does and however many nanoseconds the two readings are apart.
\<close>

theorem now_whole_seconds:
  "now c = real_of_int (sint c sdiv period_den)
   \<and> now c \<in> \<int>
   \<and> deltaTime (render renderer c0 c1 st)
       = real_of_int (sint c1 sdiv period_den - sint c0 sdiv period_den)
   \<and> deltaTime (render renderer c0 c1 st) \<in> \<int>"
  by (simp add: now_def render_def deltaTime_def Let_def)

text \<open>
  Readings of 1.0 s and 1.999999999 s give a \<open>deltaTime\<close> of 0; readings of 1.999999999 s
  and 2.0 s, one nanosecond apart, give 1.
\<close>

theorem now_whole_seconds_witness:
  "deltaTime (render None 1000000000 1999999999 ((), 0)) = 0
   \<and> deltaTime (render None 1999999999 2000000000 ((), 0)) = 1
   \<and> now 1999999999 = 1"
  using now_whole_seconds [of 1999999999 None 1000000000 1999999999 "((), 0)"]
    now_whole_seconds [of 1999999999 None 1999999999 2000000000 "((), 0)"]
  by (simp add: signed_divide_int_def period_den_def)

end
